theory Spec2Isabelle
  imports Complex_Main "HOL-Library.Word"
begin

section \<open>Buttons and button grids of module/button.py\<close>

text \<open>
  The development embeds the classes \<open>Button\<close> and \<open>ButtonGrid\<close> of
  \<^verbatim>\<open>src/module/button.py\<close>. Pixel coordinates of a button are a type parameter:
  \<open>int\<close> for buttons written as tuples of integers, numpy scalars for the cells that a
  grid computes. Similarities, thresholds and colours are floating point values that the
  code only compares and stores; they are embedded as rationals, since every finite float
  is a rational and comparisons of floats are exact.

  The arithmetic of a grid is numpy's: 64-bit integers that wrap around, and doubles
  whose operations round. Integers are words of 64 bits; the operations on doubles are
  fields of the record \<open>numpy\<close>, over an abstract type \<open>'f\<close> of doubles.

  Images are values of an abstract type \<open>'img\<close>. Everything done to them by PIL, numpy,
  imageio and OpenCV, and by \<open>crop\<close> and \<open>get_color\<close> of the helper module
  \<^verbatim>\<open>module/utils.py\<close>, is a field of the record \<open>env\<close> below.
\<close>

subsection \<open>Python helpers\<close>

datatype py_error =
  AssetReadError  \<comment> \<open>whatever imageio or PIL raise for a missing or unreadable file\<close>
  | NoAssetPath  \<comment> \<open>the exception of opening the path \<open>None\<close>\<close>
  | ValueError  \<comment> \<open>numpy: operands could not be broadcast together\<close>
  | TypeError
  | IndexError
  | Cv2Error  \<comment> \<open>\<open>cv2.error\<close> raised by \<open>cv2.matchTemplate\<close>\<close>

text \<open>\<open>str(n)\<close> of a Python integer.\<close>

fun str_nat :: "nat \<Rightarrow> string" where
  "str_nat n =
     (if n < 10 then [''0123456789'' ! n]
      else str_nat (n div 10) @ [''0123456789'' ! (n mod 10)])"

declare str_nat.simps [simp del]

definition str_int :: "int \<Rightarrow> string" where
  "str_int i = (if i < 0 then CHR ''-'' # str_nat (nat (- i)) else str_nat (nat i))"

text \<open>\<open>str.strip()\<close>, on the ASCII white space of \<open>str.isspace\<close>.\<close>

definition isspace :: "char \<Rightarrow> bool" where
  "isspace c =
     (c \<in> set [CHR '' '', CHR 0x09, CHR 0x0A, CHR 0x0B, CHR 0x0C, CHR 0x0D,
               CHR 0x1C, CHR 0x1D, CHR 0x1E, CHR 0x1F])"

definition strip :: "string \<Rightarrow> string" where
  "strip s = rev (dropWhile isspace (rev (dropWhile isspace s)))"

text \<open>
  \<open>text[:text.find('=')]\<close>: \<open>find\<close> is \<open>-1\<close> when there is no \<open>=\<close>, and the
  slice then drops the last character.
\<close>

definition slice_to_eq :: "string \<Rightarrow> string" where
  "slice_to_eq s =
     (if CHR ''='' \<in> set s then takeWhile (\<lambda>c. c \<noteq> CHR ''='') s else butlast s)"

text \<open>\<open>os.path.split(p)[1]\<close> and \<open>os.path.splitext(p)\<close> (POSIX).\<close>

definition split_tail :: "string \<Rightarrow> string" where
  "split_tail p = rev (takeWhile (\<lambda>c. c \<noteq> CHR ''/'') (rev p))"

definition splitext :: "string \<Rightarrow> string \<times> string" where
  "splitext p =
     (let rest = dropWhile (\<lambda>c. c = CHR ''.'') (split_tail p) in
      if CHR ''.'' \<in> set rest
      then (let ext = CHR ''.'' # rev (takeWhile (\<lambda>c. c \<noteq> CHR ''.'') (rev rest))
            in (take (length p - length ext) p, ext))
      else (p, []))"

text \<open>Truthiness of an optional string: \<open>None\<close> and \<open>''\<close> are false.\<close>

definition truthy :: "string option \<Rightarrow> bool" where
  "truthy s = (case s of None \<Rightarrow> False | Some t \<Rightarrow> t \<noteq> [])"

text \<open>
  \<open>xs[i]\<close> on a Python list: an index from \<open>-len(xs)\<close> up to \<open>-1\<close> is read from the
  end, an index outside \<open>-len(xs) .. len(xs) - 1\<close> raises.
\<close>

definition py_index :: "'a list \<Rightarrow> int \<Rightarrow> py_error + 'a" where
  "py_index xs i =
     (if 0 \<le> i \<and> i < int (length xs) then Inr (xs ! nat i)
      else if i < 0 \<and> - int (length xs) \<le> i then Inr (xs ! nat (int (length xs) + i))
      else Inl IndexError)"

text \<open>
  The nearest integer of a rational, a tie going to the even neighbour: what
  \<open>np.round\<close> gives on a double of that value. It serves the concrete doubles of the
  examples.
\<close>

definition np_round :: "rat \<Rightarrow> int" where
  "np_round q =
     (let f = \<lfloor>q\<rfloor>; d = q - of_int f
      in if d < 1 / 2 then f else if 1 / 2 < d then f + 1
         else if even f then f else f + 1)"

subsection \<open>The environment: libraries and module.utils\<close>

type_synonym 'a area = "'a \<times> 'a \<times> 'a \<times> 'a"

text \<open>
  Modelled from the spec: \<open>area_offset\<close> of \<^verbatim>\<open>module/utils.py\<close>, which is not among
  the sources. The spec's \<open>offsetRectangle(rect, vector)\<close> adds a 2D vector to a
  rectangle's coordinates, that is to both corners.
\<close>

definition area_offset :: "('a::plus) area \<Rightarrow> 'a \<times> 'a \<Rightarrow> 'a area" where
  "area_offset a v =
     (case a of (l, t, r, b) \<Rightarrow> (case v of (x, y) \<Rightarrow> (l + x, t + y, r + x, b + y)))"

record ('a, 'img) env =
  mimread :: "string \<Rightarrow> 'img list option"
    \<comment> \<open>\<open>imageio.mimread(path)\<close>: the frames of the file, \<open>None\<close> when it raises\<close>
  Image_open :: "string \<Rightarrow> 'img option"
    \<comment> \<open>\<open>PIL.Image.open(path)\<close>, \<open>None\<close> when it raises\<close>
  rgb_channels :: "'img \<Rightarrow> 'img"
    \<comment> \<open>\<open>image[:, :, :3] if len(image.shape) == 3 else image\<close>\<close>
  crop_array :: "'img \<Rightarrow> 'a area \<Rightarrow> 'img"
    \<comment> \<open>\<open>crop(image, area)\<close> of module.utils, on arrays\<close>
  Image_crop :: "'img \<Rightarrow> 'a area \<Rightarrow> 'img"
    \<comment> \<open>\<open>image.crop(area)\<close> of PIL, which pads outside the image and never raises\<close>
  convert_RGB :: "'img \<Rightarrow> 'img"
  get_color :: "'img \<Rightarrow> 'a area \<Rightarrow> rat list"
    \<comment> \<open>\<open>get_color(image, area)\<close> of module.utils\<close>
  matchTemplate :: "'img \<Rightarrow> 'img \<Rightarrow> (rat \<times> int \<times> int) option"
    \<comment> \<open>\<open>cv2.matchTemplate(a, b, cv2.TM_CCOEFF_NORMED)\<close> followed by
        \<open>cv2.minMaxLoc\<close>: the maximum and its location, \<open>None\<close> when cv2 raises\<close>

datatype io_event = Mimread string | ImageOpen string

subsection \<open>class Button\<close>

datatype 'img template = NoTemplate | Array 'img | Frames "'img list"

text \<open>
  The attributes \<open>_button\<close>, \<open>_button_offset\<close> and \<open>_match_init\<close> are written
  \<open>u_button\<close>, \<open>u_button_offset\<close> and \<open>u_match_init\<close>; \<open>self.image\<close> is
  \<open>image_attr\<close> and \<open>self.file\<close> is \<open>file_attr\<close>.
\<close>

record ('a, 'img) Button =
  area :: "'a area"
  color :: "rat list"
  u_button :: "'a area"
  u_button_offset :: "'a area option"
  u_match_init :: bool
  file_attr :: "string option"
  image_attr :: "'img template"
  name :: string
  is_gif :: bool

text \<open>
  \<open>Button.__init__\<close>. The last argument is the source line of the caller, which
  \<open>traceback.extract_stack()[-2]\<close> reads when neither a file nor a name is given.
\<close>

definition Button_init ::
  "'a area \<Rightarrow> rat list \<Rightarrow> 'a area \<Rightarrow> string option \<Rightarrow> string option \<Rightarrow> string
    \<Rightarrow> ('a, 'img) Button" where
  "Button_init a c bt f n line =
     \<lparr> area = a, color = c, u_button = bt, u_button_offset = None,
       u_match_init = False, file_attr = f, image_attr = NoTemplate,
       name =
         (case f of
            Some p \<Rightarrow>
              (if p \<noteq> [] then fst (splitext (split_tail p))
               else if truthy n then (case n of Some s \<Rightarrow> s | None \<Rightarrow> [])
               else strip (slice_to_eq line))
          | None \<Rightarrow>
              (if truthy n then (case n of Some s \<Rightarrow> s | None \<Rightarrow> [])
               else strip (slice_to_eq line))),
       is_gif = (case f of Some p \<Rightarrow> p \<noteq> [] \<and> snd (splitext p) = ''.gif'' | None \<Rightarrow> False) \<rparr>"

definition str_Button :: "('a, 'img) Button \<Rightarrow> string" where
  "str_Button b = name b"

text \<open>\<open>__eq__\<close> against another Button, and \<open>__hash__\<close> over Python's \<open>hash\<close> of strings.\<close>

definition eq_Button :: "('a, 'img) Button \<Rightarrow> ('b, 'img2) Button \<Rightarrow> bool" where
  "eq_Button b other = (str_Button b = str_Button other)"

definition hash_Button :: "(string \<Rightarrow> int) \<Rightarrow> ('a, 'img) Button \<Rightarrow> int" where
  "hash_Button h b = h (name b)"

text \<open>The property \<open>button\<close>.\<close>

definition button :: "('a, 'img) Button \<Rightarrow> 'a area" where
  "button b = (case u_button_offset b of None \<Rightarrow> u_button b | Some off \<Rightarrow> off)"

text \<open>\<open>load_color\<close> returns the updated object and the colour.\<close>

definition load_color ::
  "('a, 'img) env \<Rightarrow> ('a, 'img) Button \<Rightarrow> 'img \<Rightarrow> ('a, 'img) Button \<times> rat list" where
  "load_color e b im =
     (let c = get_color e im (area b)
      in (b\<lparr>color := c, image_attr := Array (Image_crop e im (area b)), is_gif := False\<rparr>, c))"

definition clear_offset :: "('a, 'img) Button \<Rightarrow> ('a, 'img) Button" where
  "clear_offset b = b\<lparr>u_button_offset := None\<rparr>"

definition move_line :: string where
  "move_line =
     ''button = Button(area=new_area, color=self.color, button=new_button, file=self.file, name=name)''"

definition move ::
  "('a::plus, 'img) env \<Rightarrow> ('a, 'img) Button \<Rightarrow> 'a \<times> 'a \<Rightarrow> 'img option \<Rightarrow> string option
    \<Rightarrow> ('a, 'img) Button" where
  "move e b vector im nm =
     (let nm' = (case nm of None \<Rightarrow> name b | Some s \<Rightarrow> s);
          new_area = area_offset (area b) vector;
          new_button = area_offset (button b) vector;
          nb = Button_init new_area (color b) new_button (file_attr b) (Some nm') move_line
      in case im of None \<Rightarrow> nb | Some i \<Rightarrow> fst (load_color e nb i))"

definition neg_vector :: "int \<times> int \<Rightarrow> int \<times> int" where
  "neg_vector v = (- fst v, - snd v)"

text \<open>
  \<open>ensure_template\<close>, on the pair of the reads done so far and the object. It returns
  the new pair and the exception raised, if any. In the animated branch
  \<open>self.image = []\<close> is assigned before \<open>imageio.mimread\<close> is called, so a failed
  read leaves the empty list behind.
\<close>

definition ensure_template ::
  "('a, 'img) env \<Rightarrow> io_event list \<times> ('a, 'img) Button
    \<Rightarrow> (io_event list \<times> ('a, 'img) Button) \<times> py_error option" where
  "ensure_template e s =
     (case s of (tr, b) \<Rightarrow>
        if u_match_init b then ((tr, b), None)
        else if is_gif b then
          (let b1 = b\<lparr>image_attr := Frames []\<rparr> in
           case file_attr b of
             None \<Rightarrow> ((tr, b1), Some NoAssetPath)
           | Some path \<Rightarrow>
               (case mimread e path of
                  None \<Rightarrow> ((tr @ [Mimread path], b1), Some AssetReadError)
                | Some frames \<Rightarrow>
                    ((tr @ [Mimread path],
                      b1\<lparr>image_attr :=
                            Frames (map (\<lambda>im. crop_array e (rgb_channels e im) (area b)) frames),
                          u_match_init := True\<rparr>),
                     None)))
        else
          (case file_attr b of
             None \<Rightarrow> ((tr, b), Some NoAssetPath)
           | Some path \<Rightarrow>
               (case Image_open e path of
                  None \<Rightarrow> ((tr @ [ImageOpen path], b), Some AssetReadError)
                | Some im \<Rightarrow>
                    ((tr @ [ImageOpen path],
                      b\<lparr>image_attr := Array (convert_RGB e (Image_crop e im (area b))),
                        u_match_init := True\<rparr>),
                     None))))"

text \<open>
  The argument \<open>offset\<close> of \<open>match\<close> is an integer or a tuple. \<open>offset_vector\<close> is the
  numpy array built from it; \<open>broadcast4\<close> is that array as numpy broadcasts it against
  the four coordinates of \<open>self.area\<close> (\<open>None\<close>: the shapes do not fit and numpy
  raises).
\<close>

datatype offset_arg = OffsetInt int | OffsetTuple "int list"

definition offset_vector :: "offset_arg \<Rightarrow> int list" where
  "offset_vector off =
     (case off of
        OffsetTuple xs \<Rightarrow> (if length xs = 2 then [- xs ! 0, - xs ! 1, xs ! 0, xs ! 1] else xs)
      | OffsetInt n \<Rightarrow> [- 3, - n, 3, n])"

definition broadcast4 :: "int list \<Rightarrow> int area option" where
  "broadcast4 xs =
     (if length xs = 1 then Some (xs ! 0, xs ! 0, xs ! 0, xs ! 0)
      else if length xs = 4 then Some (xs ! 0, xs ! 1, xs ! 2, xs ! 3)
      else None)"

text \<open>
  One assignment \<open>self._button_offset = area_offset(self._button, offset[:2] + np.array(point))\<close>.
\<close>

definition set_button_offset ::
  "(int, 'img) Button \<Rightarrow> int \<times> int \<Rightarrow> int \<times> int \<Rightarrow> (int, 'img) Button" where
  "set_button_offset b off2 point =
     b\<lparr>u_button_offset :=
         Some (area_offset (u_button b) (fst off2 + fst point, snd off2 + snd point))\<rparr>"

text \<open>The loop \<open>for template in self.image\<close> of the animated branch.\<close>

fun match_frames ::
  "(int, 'img) env \<Rightarrow> 'img \<Rightarrow> int \<times> int \<Rightarrow> rat \<Rightarrow> (int, 'img) Button \<Rightarrow> 'img list
    \<Rightarrow> (int, 'img) Button \<times> (py_error + bool)" where
  "match_frames e window off2 threshold b [] = (b, Inr False)"
| "match_frames e window off2 threshold b (t # ts) =
     (case matchTemplate e t window of
        None \<Rightarrow> (b, Inl Cv2Error)
      | Some (similarity, point) \<Rightarrow>
          (let b' = set_button_offset b off2 point
           in if threshold < similarity then (b', Inr True)
              else match_frames e window off2 threshold b' ts))"

text \<open>\<open>offset + self.area\<close>, the area the screenshot is cropped to.\<close>

definition search_window :: "int area \<Rightarrow> int area \<Rightarrow> int area" where
  "search_window off4 a =
     (case off4 of (o1, o2, o3, o4) \<Rightarrow>
        (case a of (l, t, r, bt) \<Rightarrow> (o1 + l, o2 + t, o3 + r, o4 + bt)))"

text \<open>
  \<open>match\<close>. When \<open>is_gif\<close> holds and \<open>self.image\<close> is not a list of frames, or
  \<open>is_gif\<close> does not hold and \<open>self.image\<close> is not one array, the call cannot match
  (no method of the class leads there after \<open>ensure_template\<close>); the model raises.
\<close>

definition match ::
  "(int, 'img) env \<Rightarrow> io_event list \<times> (int, 'img) Button \<Rightarrow> 'img \<Rightarrow> offset_arg \<Rightarrow> rat
    \<Rightarrow> (io_event list \<times> (int, 'img) Button) \<times> (py_error + bool)" where
  "match e s screenshot off threshold =
     (case ensure_template e s of
        (s1, Some err) \<Rightarrow> (s1, Inl err)
      | ((tr, b), None) \<Rightarrow>
          (case broadcast4 (offset_vector off) of
             None \<Rightarrow> ((tr, b), Inl ValueError)
           | Some off4 \<Rightarrow>
               (let window = Image_crop e screenshot (search_window off4 (area b));
                    off2 = (fst off4, fst (snd off4))
                in if is_gif b then
                     (case image_attr b of
                        Frames fs \<Rightarrow>
                          (case match_frames e window off2 threshold b fs of
                             (b', res) \<Rightarrow> ((tr, b'), res))
                      | _ \<Rightarrow> ((tr, b), Inl TypeError))
                   else
                     (case image_attr b of
                        Array template \<Rightarrow>
                          (case matchTemplate e template window of
                             None \<Rightarrow> ((tr, b), Inl Cv2Error)
                           | Some (similarity, point) \<Rightarrow>
                               ((tr, set_button_offset b off2 point),
                                Inr (threshold < similarity)))
                      | _ \<Rightarrow> ((tr, b), Inl TypeError)))))"

subsection \<open>numpy arrays of two numbers\<close>

text \<open>
  \<open>np.array\<close> of a pair of Python numbers is an array of int64 when both are integers
  and an array of float64 when one is a float. A scalar read from an array keeps the
  type of the array.
\<close>

datatype 'f vec2 = IntVec "64 word" "64 word" | FloatVec 'f 'f

datatype 'f npnum = I "64 word" | F 'f

record 'f numpy =
  float_of_int :: "64 word \<Rightarrow> 'f"
    \<comment> \<open>the double nearest to an int64, as numpy converts when it mixes the types\<close>
  f_mul :: "'f \<Rightarrow> 'f \<Rightarrow> 'f"
  f_add :: "'f \<Rightarrow> 'f \<Rightarrow> 'f"
  f_rint :: "'f \<Rightarrow> 'f"
    \<comment> \<open>\<open>np.round\<close> on a double\<close>
  int_of_float :: "'f \<Rightarrow> 64 word"
    \<comment> \<open>\<open>astype(int)\<close> on a double\<close>

fun to_float :: "'f numpy \<Rightarrow> 'f vec2 \<Rightarrow> 'f \<times> 'f" where
  "to_float np (IntVec a b) = (float_of_int np a, float_of_int np b)"
| "to_float np (FloatVec a b) = (a, b)"

text \<open>
  \<open>u * v\<close> and \<open>u + v\<close>: in int64, wrapping around, when both arrays are int64, and
  in float64 after converting the integers otherwise.
\<close>

fun vmul :: "'f numpy \<Rightarrow> 'f vec2 \<Rightarrow> 'f vec2 \<Rightarrow> 'f vec2" where
  "vmul np (IntVec a b) (IntVec c d) = IntVec (a * c) (b * d)"
| "vmul np u v =
     FloatVec (f_mul np (fst (to_float np u)) (fst (to_float np v)))
              (f_mul np (snd (to_float np u)) (snd (to_float np v)))"

fun vadd :: "'f numpy \<Rightarrow> 'f vec2 \<Rightarrow> 'f vec2 \<Rightarrow> 'f vec2" where
  "vadd np (IntVec a b) (IntVec c d) = IntVec (a + c) (b + d)"
| "vadd np u v =
     FloatVec (f_add np (fst (to_float np u)) (fst (to_float np v)))
              (f_add np (snd (to_float np u)) (snd (to_float np v)))"

text \<open>\<open>np.round\<close> leaves an array of integers as it is.\<close>

fun vround :: "'f numpy \<Rightarrow> 'f vec2 \<Rightarrow> 'f vec2" where
  "vround np (IntVec a b) = IntVec a b"
| "vround np (FloatVec a b) = FloatVec (f_rint np a) (f_rint np b)"

fun astype_int :: "'f numpy \<Rightarrow> 'f vec2 \<Rightarrow> 64 word \<times> 64 word" where
  "astype_int np (IntVec a b) = (a, b)"
| "astype_int np (FloatVec a b) = (int_of_float np a, int_of_float np b)"

text \<open>
  \<open>tuple(np.append(base, corner))\<close> for the int64 array \<open>base\<close>: four int64 when
  \<open>corner\<close> is int64, four float64 otherwise.
\<close>

fun np_append :: "'f numpy \<Rightarrow> 64 word \<times> 64 word \<Rightarrow> 'f vec2 \<Rightarrow> 'f npnum area" where
  "np_append np base (IntVec c d) = (I (fst base), I (snd base), I c, I d)"
| "np_append np base (FloatVec c d) =
     (F (float_of_int np (fst base)), F (float_of_int np (snd base)), F c, F d)"

subsection \<open>class ButtonGrid\<close>

text \<open>
  \<open>origin\<close>, \<open>delta\<close> and \<open>button_shape\<close> are the arrays that \<open>__init__\<close> makes
  of its arguments. \<open>grid_shape\<close> holds the numbers of columns and of rows, which
  \<open>generate\<close> hands to \<open>range\<close>. The attribute \<open>_name\<close> is written \<open>u_name\<close>.
\<close>

record 'f ButtonGrid =
  origin :: "'f vec2"
  delta :: "'f vec2"
  button_shape :: "'f vec2"
  grid_shape :: "nat \<times> nat"
  u_name :: string

definition ButtonGrid_init ::
  "'f vec2 \<Rightarrow> 'f vec2 \<Rightarrow> 'f vec2 \<Rightarrow> nat \<times> nat \<Rightarrow> string option \<Rightarrow> string
    \<Rightarrow> 'f ButtonGrid" where
  "ButtonGrid_init org dlt shape grid nm line =
     \<lparr> origin = org, delta = dlt, button_shape = shape, grid_shape = grid,
       u_name = (if truthy nm then (case nm of Some s \<Rightarrow> s | None \<Rightarrow> [])
                 else strip (slice_to_eq line)) \<rparr>"

definition getitem_line :: string where
  "getitem_line =
     ''return Button(area=area, color=(), button=area, name='%s_%s_%s' % (self._name, item[0], item[1]))''"

text \<open>
  \<open>ButtonGrid.__getitem__\<close>, for an index of two integers that numpy holds as int64.
  The first statement of the method computes \<open>base\<close>:
  \<open>np.round(np.array(item) * self.delta + self.origin).astype(int)\<close>.
\<close>

definition getitem_base :: "'f numpy \<Rightarrow> 'f ButtonGrid \<Rightarrow> 64 word \<times> 64 word \<Rightarrow> 64 word \<times> 64 word" where
  "getitem_base np g item =
     astype_int np
       (vround np (vadd np (vmul np (IntVec (fst item) (snd item)) (delta g)) (origin g)))"

text \<open>
  The method has no check of the index and no statement that raises, and numpy's
  arithmetic on int64 and float64 raises nothing.
\<close>

definition getitem ::
  "'f numpy \<Rightarrow> 'f ButtonGrid \<Rightarrow> 64 word \<times> 64 word \<Rightarrow> ('f npnum, 'img) Button" where
  "getitem np g item =
     (let base = getitem_base np g item;
          a = np_append np base (vadd np (IntVec (fst base) (snd base)) (button_shape g))
      in Button_init a [] a None
           (Some (u_name g @ ''_'' @ str_int (sint (fst item)) @ ''_'' @ str_int (sint (snd item))))
           getitem_line)"

definition in_grid :: "'f ButtonGrid \<Rightarrow> 64 word \<times> 64 word \<Rightarrow> bool" where
  "in_grid g item =
     (0 \<le> sint (fst item) \<and> sint (fst item) < int (fst (grid_shape g))
      \<and> 0 \<le> sint (snd item) \<and> sint (snd item) < int (snd (grid_shape g)))"

text \<open>
  \<open>generate\<close> and the property \<open>buttons\<close>. \<open>cached_property\<close> stores the list on
  the instance at the first access; no method changes the attributes the list is computed
  from, so the stored list is the one computed here. The indices that \<open>range\<close> yields
  reach \<open>__getitem__\<close> as int64 (\<open>of_nat\<close>); \<open>grid_shape\<close> is an array of int64
  itself, so they are below 2^63 and the conversion changes no index.
\<close>

definition generate ::
  "'f numpy \<Rightarrow> 'f ButtonGrid \<Rightarrow> (int \<times> int \<times> ('f npnum, 'img) Button) list" where
  "generate np g =
     concat (map (\<lambda>y. map (\<lambda>x. (int x, int y, getitem np g (of_nat x, of_nat y)))
                            [0..<fst (grid_shape g)])
                 [0..<snd (grid_shape g)])"

definition buttons :: "'f numpy \<Rightarrow> 'f ButtonGrid \<Rightarrow> ('f npnum, 'img) Button list" where
  "buttons np g = map (\<lambda>(x, y, b). b) (generate np g)"

subsection \<open>The specification's wording of a cell's corner\<close>

text \<open>
  The upper-left corner of a cell as the specification words it,
  \<open>origin + round(delta * (x, y))\<close>, in the same arithmetic, for comparison with
  \<open>getitem_base\<close>.
\<close>

definition spec_cell_corner :: "'f numpy \<Rightarrow> 'f ButtonGrid \<Rightarrow> 64 word \<times> 64 word \<Rightarrow> 'f vec2" where
  "spec_cell_corner np g item =
     vadd np (origin g) (vround np (vmul np (delta g) (IntVec (fst item) (snd item))))"

definition upper_left :: "'a area \<Rightarrow> 'a \<times> 'a" where
  "upper_left a = (fst a, fst (snd a))"

subsection \<open>Concrete inputs\<close>

text \<open>
  Images are numbered: 0 is the screenshot, 20 its crop to the search window, 10 and 11
  the templates of two still assets, 1 to 5 the frames of two animated assets. The
  environment fixes what the libraries return on them.
\<close>

definition demo_env :: "(int, nat) env" where
  "demo_env =
     \<lparr> mimread = (\<lambda>p. if p = ''assets/pulse.gif'' then Some [1, 2, 3]
                       else if p = ''assets/blink.gif'' then Some [4, 5] else None),
       Image_open = (\<lambda>p. if p = ''assets/OK.png'' then Some 10
                          else if p = ''assets/CANCEL.png'' then Some 11 else None),
       rgb_channels = (\<lambda>im. im),
       crop_array = (\<lambda>im a. im),
       Image_crop = (\<lambda>im a. if im = 0 then 20 else im),
       convert_RGB = (\<lambda>im. im),
       get_color = (\<lambda>im a. [0, 0, 0]),
       matchTemplate =
         (\<lambda>t w. if w \<noteq> 20 then None
                 else if t = 1 then Some (3 / 10, 0, 0)
                 else if t = 2 then Some (7 / 10, 5, 5)
                 else if t = 3 then Some (6 / 10, 2, 8)
                 else if t = 4 then Some (8 / 10, 1, 1)
                 else if t = 5 then Some (5 / 10, 2, 2)
                 else if t = 10 then Some (1, 3, 30)
                 else if t = 11 then Some (4 / 10, 7, 12)
                 else None) \<rparr>"

definition demo_button :: "string \<Rightarrow> (int, nat) Button" where
  "demo_button path =
     Button_init (100, 200, 150, 250) [231, 181, 90] (100, 200, 150, 250) (Some path) None []"

definition demo_hash :: "string \<Rightarrow> int" where
  "demo_hash s = int (length s)"

text \<open>
  Doubles for the examples: rationals with exact arithmetic. On the values of the
  examples (small integers, 1/4, 1/2, 3/2) the arithmetic of doubles is exact, so numpy
  computes the same.
\<close>

definition demo_numpy :: "rat numpy" where
  "demo_numpy =
     \<lparr> float_of_int = (\<lambda>w. of_int (sint w)),
       f_mul = (\<lambda>a b. a * b),
       f_add = (\<lambda>a b. a + b),
       f_rint = (\<lambda>q. of_int (np_round q)),
       int_of_float = (\<lambda>q. word_of_int (if 0 \<le> q then \<lfloor>q\<rfloor> else \<lceil>q\<rceil>)) \<rparr>"

definition example_grid :: "'f ButtonGrid" where
  "example_grid =
     ButtonGrid_init (IntVec 0 0) (IntVec 100 50) (IntVec 80 40) (3, 2) (Some ''GRID'') []"

definition quarter_grid :: "rat ButtonGrid" where
  "quarter_grid =
     ButtonGrid_init (FloatVec (1 / 4) 0) (FloatVec 1 1) (IntVec 1 1) (1, 1) (Some ''Q'') []"

definition half_grid :: "rat ButtonGrid" where
  "half_grid =
     ButtonGrid_init (IntVec 1 0) (FloatVec (1 / 2) 0) (IntVec 1 1) (2, 1) (Some ''H'') []"

definition flat_grid :: "'f ButtonGrid" where
  "flat_grid =
     ButtonGrid_init (IntVec 0 0) (IntVec 100 50) (IntVec 80 40) (2, 0) (Some ''FLAT'') []"

section \<open>Properties\<close>

lemmas demo_simps = demo_env_def demo_button_def Button_init_def splitext_def split_tail_def
  match_def ensure_template_def offset_vector_def broadcast4_def search_window_def
  set_button_offset_def area_offset_def Let_def

lemmas grid_simps = example_grid_def quarter_grid_def half_grid_def flat_grid_def
  ButtonGrid_init_def Button_init_def truthy_def getitem_def getitem_base_def demo_numpy_def
  in_grid_def upper_left_def spec_cell_corner_def str_int_def str_nat.simps Let_def

subsection \<open>Moving and sampling\<close>

lemma area_offset_inverse:
  "area_offset (area_offset a v) (neg_vector v) = (a :: int area)"
  by (cases a; cases v) (simp add: area_offset_def neg_vector_def)

lemma area_Button_init [simp]: "area (Button_init a c bt f n line) = a"
  by (simp add: Button_init_def)

lemma button_Button_init [simp]: "button (Button_init a c bt f n line) = bt"
  by (simp add: Button_init_def button_def)

text \<open>
  Claim C7: for every Button \<open>b\<close> with integer pixel coordinates and every vector \<open>V\<close>,
  \<open>b.move(V).move(-V)\<close> has the search area \<open>area\<close> and the click area \<open>button\<close> of
  \<open>b\<close>.
\<close>

theorem C7_move_there_and_back:
  fixes b :: "(int, 'img) Button"
  shows "area (move e (move e b v None None) (neg_vector v) None None) = area b
       \<and> button (move e (move e b v None None) (neg_vector v) None None) = button b"
  by (simp add: move_def Let_def area_offset_inverse)

text \<open>
  Claim C9: \<open>load_color\<close> overwrites \<open>color\<close> with the colour sampled from the frame at
  \<open>area\<close>, stores the crop of the frame at \<open>area\<close> in \<open>image\<close>, sets \<open>is_gif\<close> to
  false and returns the new colour; \<open>area\<close>, \<open>_button\<close>, \<open>_button_offset\<close> and
  \<open>name\<close> (and \<open>file\<close> and \<open>_match_init\<close>) keep their values.
\<close>

theorem C9_load_color_frame:
  "load_color e b im =
     (b\<lparr>color := get_color e im (area b),
        image_attr := Array (Image_crop e im (area b)),
        is_gif := False\<rparr>,
      get_color e im (area b))
   \<and> color (fst (load_color e b im)) = snd (load_color e b im)
   \<and> is_gif (fst (load_color e b im)) = False
   \<and> area (fst (load_color e b im)) = area b
   \<and> u_button (fst (load_color e b im)) = u_button b
   \<and> u_button_offset (fst (load_color e b im)) = u_button_offset b
   \<and> button (fst (load_color e b im)) = button b
   \<and> name (fst (load_color e b im)) = name b
   \<and> file_attr (fst (load_color e b im)) = file_attr b
   \<and> u_match_init (fst (load_color e b im)) = u_match_init b"
  by (simp add: load_color_def Let_def button_def split: option.split)

subsection \<open>Equality and hashing\<close>

text \<open>
  Claim C10: two Buttons are equal exactly when their names are equal strings, equal
  names give equal hashes, and no other attribute takes part in either.
\<close>

theorem C10_eq_by_name:
  "eq_Button a b = (name a = name b)
   \<and> (name a = name b \<longrightarrow> hash_Button h a = hash_Button h b)
   \<and> eq_Button (a\<lparr>area := ar, color := c, u_button := ub, u_button_offset := uo,
                   u_match_init := mi, file_attr := f, image_attr := im, is_gif := ig\<rparr>) b
       = eq_Button a b
   \<and> hash_Button h (a\<lparr>area := ar, color := c, u_button := ub, u_button_offset := uo,
                   u_match_init := mi, file_attr := f, image_attr := im, is_gif := ig\<rparr>)
       = hash_Button h a"
  by (simp add: eq_Button_def str_Button_def hash_Button_def)

text \<open>A Button and its copy moved by (5, 5): same name, other areas, equal, same hash.\<close>

theorem C10_eq_by_name_witness:
  "name (demo_button ''assets/OK.png'')
     = name (move demo_env (demo_button ''assets/OK.png'') (5, 5) None None)
   \<and> area (demo_button ''assets/OK.png'')
     \<noteq> area (move demo_env (demo_button ''assets/OK.png'') (5, 5) None None)
   \<and> eq_Button (demo_button ''assets/OK.png'')
        (move demo_env (demo_button ''assets/OK.png'') (5, 5) None None)
   \<and> hash_Button demo_hash (demo_button ''assets/OK.png'')
     = hash_Button demo_hash (move demo_env (demo_button ''assets/OK.png'') (5, 5) None None)"
proof -
  have n: "name (demo_button ''assets/OK.png'')
     = name (move demo_env (demo_button ''assets/OK.png'') (5, 5) None None)"
    by (simp add: move_def demo_button_def Button_init_def splitext_def split_tail_def Let_def)
  have a: "area (demo_button ''assets/OK.png'')
     \<noteq> area (move demo_env (demo_button ''assets/OK.png'') (5, 5) None None)"
    by (simp add: move_def demo_button_def area_offset_def Let_def)
  from n a
    C10_eq_by_name [of "demo_button ''assets/OK.png''"
      "move demo_env (demo_button ''assets/OK.png'') (5, 5) None None" demo_hash]
  show ?thesis by simp
qed

subsection \<open>Loading the template\<close>

lemma ensure_template_keeps:
  assumes "ensure_template e (tr, b) = ((tr1, b1), err)"
  shows "u_button b1 = u_button b \<and> u_button_offset b1 = u_button_offset b
       \<and> area b1 = area b \<and> is_gif b1 = is_gif b \<and> name b1 = name b
       \<and> file_attr b1 = file_attr b \<and> color b1 = color b"
  using assms
  by (auto simp: ensure_template_def Let_def split: if_splits option.splits)

text \<open>
  Claim C8: once a call of \<open>ensure_template\<close> has returned, a second call reads no
  asset and leaves the object, the loaded template included, as it is; the first call
  reads at most one asset, and none when the template was loaded before.
\<close>

theorem C8_ensure_template_once:
  assumes "ensure_template e (tr, b) = ((tr1, b1), None)"
  shows "ensure_template e' (tr1, b1) = ((tr1, b1), None)
       \<and> length tr1 \<le> Suc (length tr)
       \<and> u_match_init b1
       \<and> (u_match_init b \<longrightarrow> tr1 = tr \<and> b1 = b)"
  using assms
  by (auto simp: ensure_template_def Let_def split: if_splits option.splits)

theorem C8_ensure_template_once_witness:
  "ensure_template demo_env ([], demo_button ''assets/pulse.gif'')
     = (([Mimread ''assets/pulse.gif''],
         (demo_button ''assets/pulse.gif'')\<lparr>image_attr := Frames [1, 2, 3], u_match_init := True\<rparr>),
        None)
   \<and> ensure_template demo_env
        ([Mimread ''assets/pulse.gif''],
         (demo_button ''assets/pulse.gif'')\<lparr>image_attr := Frames [1, 2, 3], u_match_init := True\<rparr>)
     = (([Mimread ''assets/pulse.gif''],
         (demo_button ''assets/pulse.gif'')\<lparr>image_attr := Frames [1, 2, 3], u_match_init := True\<rparr>),
        None)"
proof -
  have first: "ensure_template demo_env ([], demo_button ''assets/pulse.gif'')
     = (([Mimread ''assets/pulse.gif''],
         (demo_button ''assets/pulse.gif'')\<lparr>image_attr := Frames [1, 2, 3], u_match_init := True\<rparr>),
        None)"
    by (simp add: demo_simps)
  from first C8_ensure_template_once [OF first, of demo_env] show ?thesis by simp
qed

subsection \<open>The grid\<close>

lemma floor_quarter: "\<lfloor>1 / 4 :: rat\<rfloor> = 0"
  by (rule floor_unique) simp_all

lemma floor_half: "\<lfloor>1 / 2 :: rat\<rfloor> = 0"
  by (rule floor_unique) simp_all

lemma floor_three_halves: "\<lfloor>3 / 2 :: rat\<rfloor> = 1"
  by (rule floor_unique) simp_all

lemma getitem_base_cases:
  "getitem_base np g (x, y) =
     (case delta g of
        IntVec dx dy \<Rightarrow>
          (case origin g of
             IntVec ox oy \<Rightarrow> (x * dx + ox, y * dy + oy)
           | FloatVec ox oy \<Rightarrow>
               (int_of_float np (f_rint np (f_add np (float_of_int np (x * dx)) ox)),
                int_of_float np (f_rint np (f_add np (float_of_int np (y * dy)) oy))))
      | FloatVec dx dy \<Rightarrow>
          (int_of_float np (f_rint np
             (f_add np (f_mul np (float_of_int np x) dx) (fst (to_float np (origin g))))),
           int_of_float np (f_rint np
             (f_add np (f_mul np (float_of_int np y) dy) (snd (to_float np (origin g)))))))"
  by (cases "delta g"; cases "origin g") (simp_all add: getitem_base_def)

lemma getitem_area_cases:
  "area (getitem np g item) =
     (case button_shape g of
        IntVec w h \<Rightarrow>
          (I (fst (getitem_base np g item)), I (snd (getitem_base np g item)),
           I (fst (getitem_base np g item) + w), I (snd (getitem_base np g item) + h))
      | FloatVec w h \<Rightarrow>
          (F (float_of_int np (fst (getitem_base np g item))),
           F (float_of_int np (snd (getitem_base np g item))),
           F (f_add np (float_of_int np (fst (getitem_base np g item))) w),
           F (f_add np (float_of_int np (snd (getitem_base np g item))) h)))"
  by (cases "button_shape g") (simp_all add: getitem_def Let_def)

text \<open>
  Claim C4, amended: for every grid and every cell index \<open>(x, y)\<close> the upper-left
  corner of the cell's area is \<open>round((x, y) * delta + origin)\<close> made an integer:
  the whole sum is rounded, in numpy's arithmetic (int64 that wraps around when delta
  and origin are arrays of integers, where rounding changes nothing, and float64
  otherwise). The lower-right corner is that corner plus \<open>button_shape\<close>, and the click
  area is the same rectangle. When delta and origin are arrays of integers the corner is
  \<open>origin + round(delta * (x, y))\<close>. For origin (0, 0), delta (100, 50), cell shape
  (80, 40) and grid shape (3, 2) the cell at (2, 1) has the area (200, 50, 280, 90).
\<close>

theorem C4_getitem_area:
  "getitem_base np g (x, y) =
     (case delta g of
        IntVec dx dy \<Rightarrow>
          (case origin g of
             IntVec ox oy \<Rightarrow> (x * dx + ox, y * dy + oy)
           | FloatVec ox oy \<Rightarrow>
               (int_of_float np (f_rint np (f_add np (float_of_int np (x * dx)) ox)),
                int_of_float np (f_rint np (f_add np (float_of_int np (y * dy)) oy))))
      | FloatVec dx dy \<Rightarrow>
          (int_of_float np (f_rint np
             (f_add np (f_mul np (float_of_int np x) dx) (fst (to_float np (origin g))))),
           int_of_float np (f_rint np
             (f_add np (f_mul np (float_of_int np y) dy) (snd (to_float np (origin g)))))))
   \<and> area (getitem np g (x, y) :: ('f npnum, 'img) Button) =
     (case button_shape g of
        IntVec w h \<Rightarrow>
          (I (fst (getitem_base np g (x, y))), I (snd (getitem_base np g (x, y))),
           I (fst (getitem_base np g (x, y)) + w), I (snd (getitem_base np g (x, y)) + h))
      | FloatVec w h \<Rightarrow>
          (F (float_of_int np (fst (getitem_base np g (x, y)))),
           F (float_of_int np (snd (getitem_base np g (x, y)))),
           F (f_add np (float_of_int np (fst (getitem_base np g (x, y)))) w),
           F (f_add np (float_of_int np (snd (getitem_base np g (x, y)))) h)))
   \<and> button (getitem np g (x, y) :: ('f npnum, 'img) Button)
       = area (getitem np g (x, y) :: ('f npnum, 'img) Button)
   \<and> (origin g = IntVec ox oy \<and> delta g = IntVec dx dy \<longrightarrow>
        spec_cell_corner np g (x, y) = IntVec (x * dx + ox) (y * dy + oy)
        \<and> getitem_base np g (x, y) = (x * dx + ox, y * dy + oy))
   \<and> area (getitem np example_grid (2, 1) :: ('f npnum, 'img) Button)
       = (I 200, I 50, I 280, I 90)"
proof (intro conjI impI)
  show "getitem_base np g (x, y) =
     (case delta g of
        IntVec dx dy \<Rightarrow>
          (case origin g of
             IntVec ox oy \<Rightarrow> (x * dx + ox, y * dy + oy)
           | FloatVec ox oy \<Rightarrow>
               (int_of_float np (f_rint np (f_add np (float_of_int np (x * dx)) ox)),
                int_of_float np (f_rint np (f_add np (float_of_int np (y * dy)) oy))))
      | FloatVec dx dy \<Rightarrow>
          (int_of_float np (f_rint np
             (f_add np (f_mul np (float_of_int np x) dx) (fst (to_float np (origin g))))),
           int_of_float np (f_rint np
             (f_add np (f_mul np (float_of_int np y) dy) (snd (to_float np (origin g)))))))"
    by (rule getitem_base_cases)
next
  show "area (getitem np g (x, y) :: ('f npnum, 'img) Button) =
     (case button_shape g of
        IntVec w h \<Rightarrow>
          (I (fst (getitem_base np g (x, y))), I (snd (getitem_base np g (x, y))),
           I (fst (getitem_base np g (x, y)) + w), I (snd (getitem_base np g (x, y)) + h))
      | FloatVec w h \<Rightarrow>
          (F (float_of_int np (fst (getitem_base np g (x, y)))),
           F (float_of_int np (snd (getitem_base np g (x, y)))),
           F (f_add np (float_of_int np (fst (getitem_base np g (x, y)))) w),
           F (f_add np (float_of_int np (snd (getitem_base np g (x, y)))) h)))"
    by (rule getitem_area_cases)
next
  show "button (getitem np g (x, y) :: ('f npnum, 'img) Button)
       = area (getitem np g (x, y) :: ('f npnum, 'img) Button)"
    by (simp add: getitem_def Let_def)
next
  assume whole: "origin g = IntVec ox oy \<and> delta g = IntVec dx dy"
  then show "spec_cell_corner np g (x, y) = IntVec (x * dx + ox) (y * dy + oy)"
    by (simp add: spec_cell_corner_def mult.commute add.commute)
  from whole show "getitem_base np g (x, y) = (x * dx + ox, y * dy + oy)"
    by (simp add: getitem_base_def)
next
  show "area (getitem np example_grid (2, 1) :: ('f npnum, 'img) Button)
       = (I 200, I 50, I 280, I 90)"
    by (simp add: getitem_def getitem_base_def example_grid_def ButtonGrid_init_def Let_def)
qed

text \<open>The example grid has arrays of integers for origin and delta.\<close>

theorem C4_getitem_area_witness:
  "origin (example_grid :: rat ButtonGrid) = IntVec 0 0
   \<and> delta (example_grid :: rat ButtonGrid) = IntVec 100 50
   \<and> spec_cell_corner demo_numpy example_grid (2, 1) = IntVec (2 * 100 + 0) (1 * 50 + 0)
   \<and> getitem_base demo_numpy example_grid (2, 1) = (2 * 100 + 0, 1 * 50 + 0)"
proof -
  have whole: "origin (example_grid :: rat ButtonGrid) = IntVec 0 0
      \<and> delta (example_grid :: rat ButtonGrid) = IntVec 100 50"
    by (simp add: example_grid_def ButtonGrid_init_def)
  from whole C4_getitem_area [where ?'img = unit and np = demo_numpy and g = example_grid
      and x = 2 and y = 1 and ox = 0 and oy = 0 and dx = 100 and dy = 50]
  show ?thesis by blast
qed

text \<open>
  Against C4 as stated, on doubles whose arithmetic is exact. With origin (0.25, 0) and
  delta (1.0, 1.0) the only cell, at (0, 0), has its corner at (0, 0), while
  \<open>origin + round(delta * (0, 0))\<close> is (0.25, 0). With origin (1, 0) and delta
  (0.5, 0.0) the cell at (1, 0) has its corner at (2, 0), since 1.5 is rounded to 2,
  while \<open>origin + round(delta * (1, 0))\<close> is (1, 0), since 0.5 is rounded to 0.
\<close>

theorem C4_sum_rounded_counterexample:
  "in_grid quarter_grid (0, 0)
   \<and> getitem_base demo_numpy quarter_grid (0, 0) = (0, 0)
   \<and> area (getitem demo_numpy quarter_grid (0, 0) :: (rat npnum, unit) Button)
       = (I 0, I 0, I 1, I 1)
   \<and> spec_cell_corner demo_numpy quarter_grid (0, 0) = FloatVec (1 / 4) 0
   \<and> to_float demo_numpy (IntVec 0 0)
       \<noteq> to_float demo_numpy (spec_cell_corner demo_numpy quarter_grid (0, 0))
   \<and> in_grid half_grid (1, 0)
   \<and> getitem_base demo_numpy half_grid (1, 0) = (2, 0)
   \<and> spec_cell_corner demo_numpy half_grid (1, 0) = FloatVec 1 0
   \<and> to_float demo_numpy (IntVec 2 0)
       \<noteq> to_float demo_numpy (spec_cell_corner demo_numpy half_grid (1, 0))"
  by (simp add: grid_simps np_round_def floor_quarter floor_half floor_three_halves)

lemma concat_rows_nth:
  "x < c \<Longrightarrow> y < r \<Longrightarrow> concat (map (\<lambda>y. map (f y) [0..<c]) [0..<r]) ! (y * c + x) = f y x"
proof (induction r)
  case 0
  then show ?case by simp
next
  case (Suc r)
  have len: "length (concat (map (\<lambda>y. map (f y) [0..<c]) [0..<r])) = r * c"
    by (simp add: length_concat comp_def sum_list_triv)
  show ?case
  proof (cases "y < r")
    case True
    then have "Suc y \<le> r" by simp
    then have "Suc y * c \<le> r * c" by (rule mult_le_mono1)
    with Suc.prems(1) have "y * c + x < r * c" by simp
    with True Suc show ?thesis by (simp add: nth_append len)
  next
    case False
    with Suc.prems have "y = r" by simp
    with Suc.prems show ?thesis by (simp add: nth_append len)
  qed
qed

lemma length_generate:
  "length (generate np g :: (int \<times> int \<times> ('f npnum, 'img) Button) list)
     = fst (grid_shape g) * snd (grid_shape g)"
  by (simp add: generate_def length_concat comp_def sum_list_triv)

lemma length_buttons:
  "length (buttons np g :: ('f npnum, 'img) Button list)
     = fst (grid_shape g) * snd (grid_shape g)"
  by (simp add: buttons_def length_generate)

lemma index_in_range:
  assumes "x < (c::nat)" "y < r"
  shows "y * c + x < c * r"
proof -
  from assms(2) have "Suc y \<le> r" by simp
  then have "Suc y * c \<le> r * c" by (rule mult_le_mono1)
  with assms(1) show ?thesis by (simp add: mult.commute)
qed

lemma buttons_nth:
  assumes "x < fst (grid_shape g)" "y < snd (grid_shape g)"
  shows "(buttons np g :: ('f npnum, 'img) Button list) ! (y * fst (grid_shape g) + x)
     = getitem np g (of_nat x, of_nat y)"
proof -
  have lt: "y * fst (grid_shape g) + x
      < length (generate np g :: (int \<times> int \<times> ('f npnum, 'img) Button) list)"
    using index_in_range [OF assms] by (simp add: length_generate)
  have "(generate np g :: (int \<times> int \<times> ('f npnum, 'img) Button) list)
          ! (y * fst (grid_shape g) + x)
        = (int x, int y, getitem np g (of_nat x, of_nat y))"
    unfolding generate_def using assms by (rule concat_rows_nth)
  with lt show ?thesis by (simp add: buttons_def)
qed

lemma py_index_nat: "n < length xs \<Longrightarrow> py_index xs (int n) = Inr (xs ! n)"
  by (simp add: py_index_def)

text \<open>
  Claim C5, amended: \<open>buttons\<close> has \<open>grid_shape[0] * grid_shape[1]\<close> elements in
  row-major order, the cell of column \<open>x\<close> and row \<open>y\<close> standing at position
  \<open>y * grid_shape[0] + x\<close>; for every grid with at least two columns and at least one
  row the element at position 1 is the cell of column 1 and row 0.
\<close>

theorem C5_buttons_row_major:
  "length (buttons np g :: ('f npnum, 'img) Button list)
     = fst (grid_shape g) * snd (grid_shape g)
   \<and> (x < fst (grid_shape g) \<and> y < snd (grid_shape g) \<longrightarrow>
        py_index (buttons np g :: ('f npnum, 'img) Button list)
            (int (y * fst (grid_shape g) + x))
          = Inr (getitem np g (of_nat x, of_nat y)))
   \<and> (2 \<le> fst (grid_shape g) \<and> 1 \<le> snd (grid_shape g) \<longrightarrow>
        py_index (buttons np g :: ('f npnum, 'img) Button list) 1
          = Inr (getitem np g (1, 0)))"
proof (intro conjI impI)
  show "length (buttons np g :: ('f npnum, 'img) Button list)
      = fst (grid_shape g) * snd (grid_shape g)"
    by (rule length_buttons)
next
  assume a: "x < fst (grid_shape g) \<and> y < snd (grid_shape g)"
  then have "y * fst (grid_shape g) + x < length (buttons np g :: ('f npnum, 'img) Button list)"
    using index_in_range [of x "fst (grid_shape g)" y "snd (grid_shape g)"]
    by (simp add: length_buttons)
  then show "py_index (buttons np g :: ('f npnum, 'img) Button list)
            (int (y * fst (grid_shape g) + x))
          = Inr (getitem np g (of_nat x, of_nat y))"
    using a by (simp only: py_index_nat buttons_nth)
next
  assume a: "2 \<le> fst (grid_shape g) \<and> 1 \<le> snd (grid_shape g)"
  then have x: "1 < fst (grid_shape g)" and y: "0 < snd (grid_shape g)" by simp_all
  have "0 * fst (grid_shape g) + 1 < length (buttons np g :: ('f npnum, 'img) Button list)"
    using index_in_range [OF x y] by (simp add: length_buttons)
  then have "py_index (buttons np g :: ('f npnum, 'img) Button list)
        (int (0 * fst (grid_shape g) + 1))
      = Inr (buttons np g ! (0 * fst (grid_shape g) + 1))"
    by (rule py_index_nat)
  also have "buttons np g ! (0 * fst (grid_shape g) + 1)
      = (getitem np g (of_nat 1, of_nat 0) :: ('f npnum, 'img) Button)"
    using x y by (rule buttons_nth)
  finally show "py_index (buttons np g :: ('f npnum, 'img) Button list) 1
      = Inr (getitem np g (1, 0))"
    by simp
qed

theorem C5_buttons_row_major_witness:
  "(2::nat) < fst (grid_shape (example_grid :: rat ButtonGrid))
   \<and> (1::nat) < snd (grid_shape (example_grid :: rat ButtonGrid))
   \<and> py_index (buttons demo_numpy example_grid :: (rat npnum, unit) Button list) 5
       = Inr (getitem demo_numpy example_grid (2, 1))
   \<and> 2 \<le> fst (grid_shape (example_grid :: rat ButtonGrid))
   \<and> 1 \<le> snd (grid_shape (example_grid :: rat ButtonGrid))
   \<and> py_index (buttons demo_numpy example_grid :: (rat npnum, unit) Button list) 1
       = Inr (getitem demo_numpy example_grid (1, 0))
   \<and> length (buttons demo_numpy example_grid :: (rat npnum, unit) Button list) = 6"
proof -
  have shape: "grid_shape (example_grid :: rat ButtonGrid) = (3, 2)"
    by (simp add: example_grid_def ButtonGrid_init_def)
  from C5_buttons_row_major [where ?'img = unit and np = demo_numpy and g = example_grid
      and x = 2 and y = 1] shape
  show ?thesis by simp
qed

text \<open>
  Against C5 as stated: a grid of two columns and no row has no element at position 1.
\<close>

theorem C5_no_row_counterexample:
  "2 \<le> fst (grid_shape (flat_grid :: rat ButtonGrid))
   \<and> (buttons demo_numpy flat_grid :: (rat npnum, unit) Button list) = []
   \<and> py_index (buttons demo_numpy flat_grid :: (rat npnum, unit) Button list) 1
       = Inl IndexError"
  by (simp add: flat_grid_def ButtonGrid_init_def buttons_def generate_def py_index_def)

text \<open>
  Claim C6, amended: \<open>__getitem__\<close> consults no bound. For every index of two int64,
  inside the grid or not, the Button it returns is the same whatever \<open>grid_shape\<close> is;
  its name is made of the grid's name and the two indices, and for a grid of integer
  arrays its area is \<open>(x, y) * delta + origin\<close> and that corner plus \<open>button_shape\<close>,
  in int64, an index outside the grid giving a rectangle outside the lattice.
\<close>

theorem C6_getitem_unchecked:
  "(getitem np (g\<lparr>grid_shape := s\<rparr>) item :: ('f npnum, 'img) Button) = getitem np g item
   \<and> name (getitem np g item :: ('f npnum, 'img) Button)
       = u_name g @ ''_'' @ str_int (sint (fst item)) @ ''_'' @ str_int (sint (snd item))
   \<and> (origin g = IntVec ox oy \<and> delta g = IntVec dx dy \<and> button_shape g = IntVec w h \<longrightarrow>
        area (getitem np g item :: ('f npnum, 'img) Button)
          = (I (fst item * dx + ox), I (snd item * dy + oy),
             I (fst item * dx + ox + w), I (snd item * dy + oy + h)))"
  by (simp add: getitem_def getitem_base_def Let_def Button_init_def truthy_def)

text \<open>
  In the 3 by 2 example grid the index (5, 7) is out of range; the area follows the
  lattice, and a grid of any other shape gives the same Button.
\<close>

theorem C6_getitem_unchecked_witness:
  "\<not> in_grid (example_grid :: rat ButtonGrid) (5, 7)
   \<and> origin (example_grid :: rat ButtonGrid) = IntVec 0 0
   \<and> delta (example_grid :: rat ButtonGrid) = IntVec 100 50
   \<and> button_shape (example_grid :: rat ButtonGrid) = IntVec 80 40
   \<and> area (getitem demo_numpy example_grid (5, 7) :: (rat npnum, unit) Button)
       = (I (fst (5 :: 64 word, 7 :: 64 word) * 100 + 0),
          I (snd (5 :: 64 word, 7 :: 64 word) * 50 + 0),
          I (fst (5 :: 64 word, 7 :: 64 word) * 100 + 0 + 80),
          I (snd (5 :: 64 word, 7 :: 64 word) * 50 + 0 + 40))
   \<and> (getitem demo_numpy (example_grid\<lparr>grid_shape := (9, 9)\<rparr>) (5, 7)
        :: (rat npnum, unit) Button)
       = getitem demo_numpy example_grid (5, 7)"
proof -
  have outside: "\<not> in_grid (example_grid :: rat ButtonGrid) (5, 7)"
    by (simp add: in_grid_def example_grid_def ButtonGrid_init_def)
  have ints: "origin (example_grid :: rat ButtonGrid) = IntVec 0 0
      \<and> delta (example_grid :: rat ButtonGrid) = IntVec 100 50
      \<and> button_shape (example_grid :: rat ButtonGrid) = IntVec 80 40"
    by (simp add: example_grid_def ButtonGrid_init_def)
  from outside ints
    C6_getitem_unchecked [where ?'img = unit and np = demo_numpy and g = example_grid
      and item = "(5, 7)" and s = "(9, 9)" and ox = 0 and oy = 0 and dx = 100 and dy = 50
      and w = 80 and h = 40]
  show ?thesis by blast
qed

text \<open>
  Against C6 as stated: in the 3 by 2 example grid the indices (3, 0) and (-1, 0) are out
  of range, and the call returns a Button for each.
\<close>

theorem C6_out_of_range_counterexample:
  "\<not> in_grid (example_grid :: rat ButtonGrid) (3, 0)
   \<and> area (getitem demo_numpy example_grid (3, 0) :: (rat npnum, unit) Button)
       = (I 300, I 0, I 380, I 40)
   \<and> name (getitem demo_numpy example_grid (3, 0) :: (rat npnum, unit) Button) = ''GRID_3_0''
   \<and> \<not> in_grid (example_grid :: rat ButtonGrid) (- 1, 0)
   \<and> area (getitem demo_numpy example_grid (- 1, 0) :: (rat npnum, unit) Button)
       = (I (- 100), I 0, I (- 20), I 40)
   \<and> name (getitem demo_numpy example_grid (- 1, 0) :: (rat npnum, unit) Button)
       = ''GRID_-1_0''"
  by (simp add: grid_simps)

text \<open>
  The products are taken in int64: at the index 10^17 the corner 10^19 of the example
  grid wraps around to -8446744073709551616.
\<close>

lemma getitem_wraps_around:
  "area (getitem demo_numpy example_grid (100000000000000000, 0) :: (rat npnum, unit) Button)
     = (I (- 8446744073709551616), I 0, I (- 8446744073709551536), I 40)
   \<and> sint (fst (getitem_base demo_numpy (example_grid :: rat ButtonGrid)
                   (100000000000000000, 0)))
     = - 8446744073709551616"
  by (simp add: grid_simps)

subsection \<open>Template matching\<close>

lemma set_button_offset_twice [simp]:
  "set_button_offset (set_button_offset b off2 p) off2 q = set_button_offset b off2 q"
  by (simp add: set_button_offset_def)

text \<open>No frame clears the threshold: the loop ends on the last frame and returns false.\<close>

lemma match_frames_miss:
  assumes "\<forall>u\<in>set fs. \<exists>sim p. matchTemplate e u w = Some (sim, p) \<and> sim \<le> thr"
    and "fs \<noteq> []" and "matchTemplate e (last fs) w = Some (sim', p')"
  shows "match_frames e w off2 thr b fs = (set_button_offset b off2 p', Inr False)"
  using assms
proof (induction fs arbitrary: b)
  case Nil
  then show ?case by simp
next
  case (Cons t ts)
  from Cons.prems(1) obtain sim p where t: "matchTemplate e t w = Some (sim, p)" "sim \<le> thr"
    by auto
  show ?case
  proof (cases "ts = []")
    case True
    with t Cons.prems(3) show ?thesis by simp
  next
    case False
    with Cons.prems have "match_frames e w off2 thr (set_button_offset b off2 p) ts
        = (set_button_offset (set_button_offset b off2 p) off2 p', Inr False)"
      by (intro Cons.IH) auto
    with t show ?thesis by simp
  qed
qed

text \<open>The first frame that clears the threshold ends the loop; later frames are not read.\<close>

lemma match_frames_hit:
  assumes "\<forall>u\<in>set pre. \<exists>sim p. matchTemplate e u w = Some (sim, p) \<and> sim \<le> thr"
    and "matchTemplate e t w = Some (sim', p')" and "thr < sim'"
  shows "match_frames e w off2 thr b (pre @ t # post) = (set_button_offset b off2 p', Inr True)"
  using assms
proof (induction pre arbitrary: b)
  case Nil
  then show ?case by simp
next
  case (Cons u us)
  from Cons.prems(1) obtain sim p where u: "matchTemplate e u w = Some (sim, p)" "sim \<le> thr"
    by auto
  from Cons.prems have "match_frames e w off2 thr (set_button_offset b off2 p) (us @ t # post)
      = (set_button_offset (set_button_offset b off2 p) off2 p', Inr True)"
    by (intro Cons.IH) auto
  with u show ?case by simp
qed

lemma match_frames_returns:
  assumes "match_frames e w off2 thr b fs = (b', Inr r)"
  shows "(fs = [] \<and> b' = b \<and> \<not> r)
      \<or> (\<exists>t\<in>set fs. \<exists>sim p. matchTemplate e t w = Some (sim, p)
            \<and> b' = set_button_offset b off2 p \<and> r = (thr < sim))"
  using assms
proof (induction fs arbitrary: b)
  case Nil
  then show ?case by simp
next
  case (Cons t ts)
  from Cons.prems obtain sim p where t: "matchTemplate e t w = Some (sim, p)"
    by (auto split: option.splits)
  show ?case
  proof (cases "thr < sim")
    case True
    with t Cons.prems show ?thesis by (auto simp del: split_paired_Ex)
  next
    case False
    with t Cons.prems
    have rec: "match_frames e w off2 thr (set_button_offset b off2 p) ts = (b', Inr r)"
      by simp
    from Cons.IH [OF rec] show ?thesis
    proof
      assume "ts = [] \<and> b' = set_button_offset b off2 p \<and> \<not> r"
      with t False show ?thesis by (auto simp del: split_paired_Ex)
    next
      assume "\<exists>t\<in>set ts. \<exists>sim p'. matchTemplate e t w = Some (sim, p')
            \<and> b' = set_button_offset (set_button_offset b off2 p) off2 p' \<and> r = (thr < sim)"
      then show ?thesis by (auto simp del: split_paired_Ex)
    qed
  qed
qed

text \<open>
  Claim C1, amended: whenever \<open>match\<close> returns, with the template loaded and the offset
  well shaped, it has recorded a location, whether the result is true or false.
  For a still template \<open>_button_offset\<close> is \<open>_button\<close> moved by \<open>offset[:2]\<close> plus
  the best location that the matcher reports, and the result is whether the similarity
  exceeds the threshold. For an animated template with at least one frame
  \<open>_button_offset\<close> is \<open>_button\<close> moved by \<open>offset[:2]\<close> plus the location reported
  for one of the frames (every frame tried overwrites it), and the result is whether the
  similarity of that frame exceeds the threshold; with no frame the object is unchanged
  and the result is false.
\<close>

theorem C1_match_records_offset:
  assumes load: "ensure_template e (tr, b) = ((tr1, b1), None)"
    and off: "broadcast4 (offset_vector off) = Some off4"
    and ret: "match e (tr, b) im off thr = ((tr2, b2), Inr r)"
  shows "tr2 = tr1
    \<and> (\<not> is_gif b \<longrightarrow>
         (\<exists>template sim p. image_attr b1 = Array template
            \<and> matchTemplate e template (Image_crop e im (search_window off4 (area b))) = Some (sim, p)
            \<and> b2 = set_button_offset b1 (fst off4, fst (snd off4)) p
            \<and> u_button_offset b2
                = Some (area_offset (u_button b) (fst off4 + fst p, fst (snd off4) + snd p))
            \<and> r = (thr < sim)))
    \<and> (is_gif b \<longrightarrow>
         (\<exists>fs. image_attr b1 = Frames fs
            \<and> ((fs = [] \<and> b2 = b1 \<and> \<not> r)
               \<or> (\<exists>t\<in>set fs. \<exists>sim p.
                    matchTemplate e t (Image_crop e im (search_window off4 (area b))) = Some (sim, p)
                    \<and> b2 = set_button_offset b1 (fst off4, fst (snd off4)) p
                    \<and> u_button_offset b2
                        = Some (area_offset (u_button b) (fst off4 + fst p, fst (snd off4) + snd p))
                    \<and> r = (thr < sim)))))"
proof -
  note keep = ensure_template_keeps [OF load]
  show ?thesis
  proof (cases "is_gif b")
    case False
    with keep have ng: "\<not> is_gif b1" by simp
    from ret load off ng obtain template where tpl: "image_attr b1 = Array template"
      by (cases "image_attr b1") (auto simp: match_def Let_def)
    from ret load off ng tpl obtain sim p where
      m: "matchTemplate e template (Image_crop e im (search_window off4 (area b1))) = Some (sim, p)"
      by (auto simp: match_def Let_def split: option.splits)
    from ret load off ng tpl m have "tr2 = tr1"
      "b2 = set_button_offset b1 (fst off4, fst (snd off4)) p" "r = (thr < sim)"
      by (auto simp: match_def Let_def)
    with False tpl m keep show ?thesis
      by (auto simp: set_button_offset_def simp del: split_paired_Ex)
  next
    case True
    with keep have g: "is_gif b1" by simp
    from ret load off g obtain fs where fs: "image_attr b1 = Frames fs"
      by (cases "image_attr b1") (auto simp: match_def Let_def)
    from ret load off g fs have
      mf: "match_frames e (Image_crop e im (search_window off4 (area b1)))
            (fst off4, fst (snd off4)) thr b1 fs = (b2, Inr r)" and "tr2 = tr1"
      by (auto simp: match_def Let_def split: prod.splits)
    from match_frames_returns [OF mf] True fs keep \<open>tr2 = tr1\<close> show ?thesis
      by (auto simp: set_button_offset_def simp del: split_paired_Ex)
  qed
qed

text \<open>
  A still template that scores 4/10 at (7, 12) against the threshold 85/100: the call
  returns false and has recorded the click area moved by (-3 + 7, -30 + 12).
\<close>

theorem C1_match_records_offset_witness:
  "ensure_template demo_env ([], demo_button ''assets/CANCEL.png'')
     = (([ImageOpen ''assets/CANCEL.png''],
         (demo_button ''assets/CANCEL.png'')\<lparr>image_attr := Array 11, u_match_init := True\<rparr>),
        None)
   \<and> broadcast4 (offset_vector (OffsetInt 30)) = Some (- 3, - 30, 3, 30)
   \<and> match demo_env ([], demo_button ''assets/CANCEL.png'') 0 (OffsetInt 30) (85 / 100)
     = (([ImageOpen ''assets/CANCEL.png''],
         (demo_button ''assets/CANCEL.png'')
           \<lparr>u_button_offset := Some (104, 182, 154, 232),
            image_attr := Array 11, u_match_init := True\<rparr>),
        Inr False)
   \<and> \<not> is_gif (demo_button ''assets/CANCEL.png'')"
proof -
  have load: "ensure_template demo_env ([], demo_button ''assets/CANCEL.png'')
     = (([ImageOpen ''assets/CANCEL.png''],
         (demo_button ''assets/CANCEL.png'')\<lparr>image_attr := Array 11, u_match_init := True\<rparr>),
        None)"
    by (simp add: demo_simps)
  have off: "broadcast4 (offset_vector (OffsetInt 30)) = Some (- 3, - 30, 3, 30)"
    by (simp add: offset_vector_def broadcast4_def)
  have ret: "match demo_env ([], demo_button ''assets/CANCEL.png'') 0 (OffsetInt 30) (85 / 100)
     = (([ImageOpen ''assets/CANCEL.png''],
         (demo_button ''assets/CANCEL.png'')
           \<lparr>u_button_offset := Some (104, 182, 154, 232),
            image_attr := Array 11, u_match_init := True\<rparr>),
        Inr False)"
    by (simp add: demo_simps)
  have still: "\<not> is_gif (demo_button ''assets/CANCEL.png'')"
    by (simp add: demo_simps)
  from load off ret still C1_match_records_offset [OF load off ret]
  show ?thesis by blast
qed

text \<open>
  Against C1 as stated: an animation of two frames, the first scoring 8/10 at (1, 1) and
  the second 5/10 at (2, 2), against the threshold 85/100. The call returns false and
  \<open>_button_offset\<close> holds the location of the second frame, not the best one found.
\<close>

theorem C1_last_frame_counterexample:
  "is_gif (demo_button ''assets/blink.gif'')
   \<and> mimread demo_env ''assets/blink.gif'' = Some [4, 5]
   \<and> matchTemplate demo_env 4 20 = Some (8 / 10, 1, 1)
   \<and> matchTemplate demo_env 5 20 = Some (5 / 10, 2, 2)
   \<and> snd (match demo_env ([], demo_button ''assets/blink.gif'') 0 (OffsetInt 30) (85 / 100))
       = Inr False
   \<and> u_button_offset
        (snd (fst (match demo_env ([], demo_button ''assets/blink.gif'') 0 (OffsetInt 30) (85 / 100))))
       = Some (area_offset (u_button (demo_button ''assets/blink.gif'')) (- 3 + 2, - 30 + 2))
   \<and> u_button_offset
        (snd (fst (match demo_env ([], demo_button ''assets/blink.gif'') 0 (OffsetInt 30) (85 / 100))))
       \<noteq> Some (area_offset (u_button (demo_button ''assets/blink.gif'')) (- 3 + 1, - 30 + 1))"
  by (simp add: demo_simps)

text \<open>
  Claim C2, amended: for an animated template \<open>match\<close> goes through the frames in
  order and every frame tried overwrites \<open>_button_offset\<close>. It returns true at the
  first frame whose similarity exceeds the threshold, with the location of that frame
  recorded and without reading the frames after it; when no frame exceeds the threshold
  it returns false after the last frame, with the location of the last frame recorded,
  whichever frame scored best; with no frame it returns false and records nothing.
\<close>

theorem C2_match_animated:
  assumes load: "ensure_template e (tr, b) = ((tr1, b1), None)"
    and gif: "is_gif b"
    and frames: "image_attr b1 = Frames fs"
    and off: "broadcast4 (offset_vector off) = Some off4"
  shows
    "(fs = pre @ t # post
      \<and> (\<forall>u\<in>set pre. \<exists>sim p.
            matchTemplate e u (Image_crop e im (search_window off4 (area b))) = Some (sim, p)
            \<and> sim \<le> thr)
      \<and> matchTemplate e t (Image_crop e im (search_window off4 (area b))) = Some (simh, ph)
      \<and> thr < simh
      \<longrightarrow> match e (tr, b) im off thr
            = ((tr1, set_button_offset b1 (fst off4, fst (snd off4)) ph), Inr True))
   \<and> (fs \<noteq> []
      \<and> (\<forall>u\<in>set fs. \<exists>sim p.
            matchTemplate e u (Image_crop e im (search_window off4 (area b))) = Some (sim, p)
            \<and> sim \<le> thr')
      \<and> matchTemplate e (last fs) (Image_crop e im (search_window off4 (area b))) = Some (simm, pm)
      \<longrightarrow> match e (tr, b) im off thr'
            = ((tr1, set_button_offset b1 (fst off4, fst (snd off4)) pm), Inr False))
   \<and> (fs = [] \<longrightarrow> match e (tr, b) im off thr = ((tr1, b1), Inr False))"
proof -
  note keep = ensure_template_keeps [OF load]
  from keep gif have g: "is_gif b1" by simp
  from keep have a: "area b1 = area b" by simp
  have unfold: "match e (tr, b) im off th
      = (case match_frames e (Image_crop e im (search_window off4 (area b)))
                (fst off4, fst (snd off4)) th b1 fs of
           (b', res) \<Rightarrow> ((tr1, b'), res))" for th
    using load off g frames a by (simp add: match_def Let_def)
  show ?thesis
  proof (intro conjI impI)
    assume h: "fs = pre @ t # post
      \<and> (\<forall>u\<in>set pre. \<exists>sim p.
            matchTemplate e u (Image_crop e im (search_window off4 (area b))) = Some (sim, p)
            \<and> sim \<le> thr)
      \<and> matchTemplate e t (Image_crop e im (search_window off4 (area b))) = Some (simh, ph)
      \<and> thr < simh"
    then have "match_frames e (Image_crop e im (search_window off4 (area b)))
        (fst off4, fst (snd off4)) thr b1 (pre @ t # post)
        = (set_button_offset b1 (fst off4, fst (snd off4)) ph, Inr True)"
      by (intro match_frames_hit) auto
    with h show "match e (tr, b) im off thr
        = ((tr1, set_button_offset b1 (fst off4, fst (snd off4)) ph), Inr True)"
      by (simp add: unfold)
  next
    assume h: "fs \<noteq> []
      \<and> (\<forall>u\<in>set fs. \<exists>sim p.
            matchTemplate e u (Image_crop e im (search_window off4 (area b))) = Some (sim, p)
            \<and> sim \<le> thr')
      \<and> matchTemplate e (last fs) (Image_crop e im (search_window off4 (area b))) = Some (simm, pm)"
    then have "match_frames e (Image_crop e im (search_window off4 (area b)))
        (fst off4, fst (snd off4)) thr' b1 fs
        = (set_button_offset b1 (fst off4, fst (snd off4)) pm, Inr False)"
      by (intro match_frames_miss) auto
    then show "match e (tr, b) im off thr'
        = ((tr1, set_button_offset b1 (fst off4, fst (snd off4)) pm), Inr False)"
      by (simp add: unfold)
  next
    assume "fs = []"
    then show "match e (tr, b) im off thr = ((tr1, b1), Inr False)"
      by (simp add: unfold)
  qed
qed

text \<open>
  An animation of three frames scoring 3/10, 7/10 and 6/10. Against the threshold 65/100
  the call returns true at the second frame; against 85/100 it returns false after the
  third.
\<close>

theorem C2_match_animated_witness:
  "ensure_template demo_env ([], demo_button ''assets/pulse.gif'')
     = (([Mimread ''assets/pulse.gif''],
         (demo_button ''assets/pulse.gif'')\<lparr>image_attr := Frames [1, 2, 3], u_match_init := True\<rparr>),
        None)
   \<and> is_gif (demo_button ''assets/pulse.gif'')
   \<and> broadcast4 (offset_vector (OffsetInt 30)) = Some (- 3, - 30, 3, 30)
   \<and> match demo_env ([], demo_button ''assets/pulse.gif'') 0 (OffsetInt 30) (65 / 100)
     = (([Mimread ''assets/pulse.gif''],
         set_button_offset
           ((demo_button ''assets/pulse.gif'')\<lparr>image_attr := Frames [1, 2, 3], u_match_init := True\<rparr>)
           (- 3, - 30) (5, 5)),
        Inr True)
   \<and> match demo_env ([], demo_button ''assets/pulse.gif'') 0 (OffsetInt 30) (85 / 100)
     = (([Mimread ''assets/pulse.gif''],
         set_button_offset
           ((demo_button ''assets/pulse.gif'')\<lparr>image_attr := Frames [1, 2, 3], u_match_init := True\<rparr>)
           (- 3, - 30) (2, 8)),
        Inr False)"
proof -
  have load: "ensure_template demo_env ([], demo_button ''assets/pulse.gif'')
     = (([Mimread ''assets/pulse.gif''],
         (demo_button ''assets/pulse.gif'')\<lparr>image_attr := Frames [1, 2, 3], u_match_init := True\<rparr>),
        None)"
    by (simp add: demo_simps)
  have gif: "is_gif (demo_button ''assets/pulse.gif'')"
    by (simp add: demo_simps)
  have frames: "image_attr
      ((demo_button ''assets/pulse.gif'')\<lparr>image_attr := Frames [1, 2, 3], u_match_init := True\<rparr>)
      = Frames [1, 2, 3]"
    by simp
  have off: "broadcast4 (offset_vector (OffsetInt 30)) = Some (- 3, - 30, 3, 30)"
    by (simp add: offset_vector_def broadcast4_def)
  have low1: "\<exists>sim p. matchTemplate demo_env 1
        (Image_crop demo_env 0
           (search_window (- 3, - 30, 3, 30) (area (demo_button ''assets/pulse.gif''))))
        = Some (sim, p) \<and> sim \<le> 65 / 100"
    by (rule exI [of _ "3 / 10"], rule exI [of _ "(0, 0)"]) (simp add: demo_env_def)
  have all1: "\<exists>sim p. matchTemplate demo_env 1
        (Image_crop demo_env 0
           (search_window (- 3, - 30, 3, 30) (area (demo_button ''assets/pulse.gif''))))
        = Some (sim, p) \<and> sim \<le> 85 / 100"
    by (rule exI [of _ "3 / 10"], rule exI [of _ "(0, 0)"]) (simp add: demo_env_def)
  have all2: "\<exists>sim p. matchTemplate demo_env 2
        (Image_crop demo_env 0
           (search_window (- 3, - 30, 3, 30) (area (demo_button ''assets/pulse.gif''))))
        = Some (sim, p) \<and> sim \<le> 85 / 100"
    by (rule exI [of _ "7 / 10"], rule exI [of _ "(5, 5)"]) (simp add: demo_env_def)
  have all3: "\<exists>sim p. matchTemplate demo_env 3
        (Image_crop demo_env 0
           (search_window (- 3, - 30, 3, 30) (area (demo_button ''assets/pulse.gif''))))
        = Some (sim, p) \<and> sim \<le> 85 / 100"
    by (rule exI [of _ "6 / 10"], rule exI [of _ "(2, 8)"]) (simp add: demo_env_def)
  have second: "matchTemplate demo_env 2
            (Image_crop demo_env 0
               (search_window (- 3, - 30, 3, 30) (area (demo_button ''assets/pulse.gif''))))
          = Some (7 / 10, (5, 5))"
    and third: "matchTemplate demo_env (last [1, 2, 3])
            (Image_crop demo_env 0
               (search_window (- 3, - 30, 3, 30) (area (demo_button ''assets/pulse.gif''))))
          = Some (6 / 10, (2, 8))"
    by (simp_all add: demo_env_def)
  have hit_prems: "[1, 2, 3] = [1] @ 2 # [3]
      \<and> (\<forall>u\<in>set [1]. \<exists>sim p.
            matchTemplate demo_env u
              (Image_crop demo_env 0
                 (search_window (- 3, - 30, 3, 30) (area (demo_button ''assets/pulse.gif''))))
              = Some (sim, p)
            \<and> sim \<le> 65 / 100)
      \<and> matchTemplate demo_env 2
            (Image_crop demo_env 0
               (search_window (- 3, - 30, 3, 30) (area (demo_button ''assets/pulse.gif''))))
          = Some (7 / 10, (5, 5))
      \<and> (65 / 100 :: rat) < 7 / 10"
  proof (intro conjI ballI)
    fix u :: nat
    assume "u \<in> set [1]"
    then have "u = 1" by simp
    with low1 show "\<exists>sim p. matchTemplate demo_env u
        (Image_crop demo_env 0
           (search_window (- 3, - 30, 3, 30) (area (demo_button ''assets/pulse.gif''))))
        = Some (sim, p) \<and> sim \<le> 65 / 100"
      by simp
  qed (simp_all add: second)
  have miss_prems: "[1, 2, 3] \<noteq> []
      \<and> (\<forall>u\<in>set [1, 2, 3]. \<exists>sim p.
            matchTemplate demo_env u
              (Image_crop demo_env 0
                 (search_window (- 3, - 30, 3, 30) (area (demo_button ''assets/pulse.gif''))))
              = Some (sim, p)
            \<and> sim \<le> 85 / 100)
      \<and> matchTemplate demo_env (last [1, 2, 3])
            (Image_crop demo_env 0
               (search_window (- 3, - 30, 3, 30) (area (demo_button ''assets/pulse.gif''))))
          = Some (6 / 10, (2, 8))"
  proof (intro conjI ballI)
    fix u :: nat
    assume "u \<in> set [1, 2, 3]"
    then have "u = 1 \<or> u = 2 \<or> u = 3" by simp
    with all1 all2 all3 show "\<exists>sim p. matchTemplate demo_env u
        (Image_crop demo_env 0
           (search_window (- 3, - 30, 3, 30) (area (demo_button ''assets/pulse.gif''))))
        = Some (sim, p) \<and> sim \<le> 85 / 100"
      by blast
  qed (simp, rule third)
  note inst = C2_match_animated [OF load gif frames off, where im = 0 and pre = "[1]" and t = 2
      and post = "[3]" and simh = "7 / 10" and ph = "(5, 5)" and thr = "65 / 100"
      and thr' = "85 / 100" and simm = "6 / 10" and pm = "(2, 8)"]
  from inst [THEN conjunct1, THEN mp, OF hit_prems]
  have hit: "match demo_env ([], demo_button ''assets/pulse.gif'') 0 (OffsetInt 30) (65 / 100)
     = (([Mimread ''assets/pulse.gif''],
         set_button_offset
           ((demo_button ''assets/pulse.gif'')\<lparr>image_attr := Frames [1, 2, 3], u_match_init := True\<rparr>)
           (- 3, - 30) (5, 5)),
        Inr True)"
    by simp
  from inst [THEN conjunct2, THEN conjunct1, THEN mp, OF miss_prems]
  have miss: "match demo_env ([], demo_button ''assets/pulse.gif'') 0 (OffsetInt 30) (85 / 100)
     = (([Mimread ''assets/pulse.gif''],
         set_button_offset
           ((demo_button ''assets/pulse.gif'')\<lparr>image_attr := Frames [1, 2, 3], u_match_init := True\<rparr>)
           (- 3, - 30) (2, 8)),
        Inr False)"
    by simp
  from load gif off hit miss show ?thesis by blast
qed

text \<open>
  Against C2 as stated: in that animation the second frame scores best, 7/10 at (5, 5),
  and after the call against the threshold 85/100 \<open>_button_offset\<close> holds the location
  (2, 8) of the third frame.
\<close>

theorem C2_best_frame_counterexample:
  "is_gif (demo_button ''assets/pulse.gif'')
   \<and> mimread demo_env ''assets/pulse.gif'' = Some [1, 2, 3]
   \<and> matchTemplate demo_env 1 20 = Some (3 / 10, 0, 0)
   \<and> matchTemplate demo_env 2 20 = Some (7 / 10, 5, 5)
   \<and> matchTemplate demo_env 3 20 = Some (6 / 10, 2, 8)
   \<and> snd (match demo_env ([], demo_button ''assets/pulse.gif'') 0 (OffsetInt 30) (85 / 100))
       = Inr False
   \<and> u_button_offset
        (snd (fst (match demo_env ([], demo_button ''assets/pulse.gif'') 0 (OffsetInt 30) (85 / 100))))
       = Some (area_offset (u_button (demo_button ''assets/pulse.gif'')) (- 3 + 2, - 30 + 8))
   \<and> u_button_offset
        (snd (fst (match demo_env ([], demo_button ''assets/pulse.gif'') 0 (OffsetInt 30) (85 / 100))))
       \<noteq> Some (area_offset (u_button (demo_button ''assets/pulse.gif'')) (- 3 + 5, - 30 + 5))"
  by (simp add: demo_simps)

text \<open>
  Claim C3, amended: for a still template and a frame on which the matcher gives the
  perfect score 1 at the location \<open>p\<close> of the search window (the frame holds the exact
  reference image there), \<open>match\<close> records \<open>_button\<close> moved by \<open>offset[:2] + p\<close> and
  returns whether the threshold is below 1: true for every threshold under 1.0, false at
  1.0, since the comparison \<open>similarity > threshold\<close> is strict.
\<close>

theorem C3_exact_paste:
  assumes load: "ensure_template e (tr, b) = ((tr1, b1), None)"
    and still: "\<not> is_gif b"
    and tpl: "image_attr b1 = Array template"
    and off: "broadcast4 (offset_vector off) = Some off4"
    and paste: "matchTemplate e template (Image_crop e im (search_window off4 (area b)))
        = Some (1, p)"
  shows "match e (tr, b) im off thr
      = ((tr1, set_button_offset b1 (fst off4, fst (snd off4)) p), Inr (thr < 1))
    \<and> u_button_offset (snd (fst (match e (tr, b) im off thr)))
      = Some (area_offset (u_button b) (fst off4 + fst p, fst (snd off4) + snd p))
    \<and> (thr < 1 \<longrightarrow> snd (match e (tr, b) im off thr) = Inr True)"
proof -
  note keep = ensure_template_keeps [OF load]
  from keep still have ng: "\<not> is_gif b1" by simp
  from keep have a: "area b1 = area b" and u: "u_button b1 = u_button b" by simp_all
  have m: "match e (tr, b) im off thr
      = ((tr1, set_button_offset b1 (fst off4, fst (snd off4)) p), Inr (thr < 1))"
    using load off ng tpl paste a by (simp add: match_def Let_def)
  then show ?thesis
    using u by (simp add: set_button_offset_def)
qed

text \<open>
  The still template of the first asset stands in the frame where the button is drawn,
  at (3, 30) of the search window: against the threshold 85/100 the call returns true and
  the recorded click area is the static one.
\<close>

theorem C3_exact_paste_witness:
  "ensure_template demo_env ([], demo_button ''assets/OK.png'')
     = (([ImageOpen ''assets/OK.png''],
         (demo_button ''assets/OK.png'')\<lparr>image_attr := Array 10, u_match_init := True\<rparr>),
        None)
   \<and> \<not> is_gif (demo_button ''assets/OK.png'')
   \<and> broadcast4 (offset_vector (OffsetInt 30)) = Some (- 3, - 30, 3, 30)
   \<and> matchTemplate demo_env 10
        (Image_crop demo_env 0
           (search_window (- 3, - 30, 3, 30) (area (demo_button ''assets/OK.png''))))
       = Some (1, 3, 30)
   \<and> (85 / 100 :: rat) < 1
   \<and> snd (match demo_env ([], demo_button ''assets/OK.png'') 0 (OffsetInt 30) (85 / 100))
       = Inr True
   \<and> u_button_offset
        (snd (fst (match demo_env ([], demo_button ''assets/OK.png'') 0 (OffsetInt 30) (85 / 100))))
       = Some (area_offset (u_button (demo_button ''assets/OK.png'')) (- 3 + 3, - 30 + 30))"
proof -
  have load: "ensure_template demo_env ([], demo_button ''assets/OK.png'')
     = (([ImageOpen ''assets/OK.png''],
         (demo_button ''assets/OK.png'')\<lparr>image_attr := Array 10, u_match_init := True\<rparr>),
        None)"
    by (simp add: demo_simps)
  have still: "\<not> is_gif (demo_button ''assets/OK.png'')"
    by (simp add: demo_simps)
  have tpl: "image_attr
      ((demo_button ''assets/OK.png'')\<lparr>image_attr := Array 10, u_match_init := True\<rparr>)
      = Array 10"
    by simp
  have off: "broadcast4 (offset_vector (OffsetInt 30)) = Some (- 3, - 30, 3, 30)"
    by (simp add: offset_vector_def broadcast4_def)
  have paste: "matchTemplate demo_env 10
        (Image_crop demo_env 0
           (search_window (- 3, - 30, 3, 30) (area (demo_button ''assets/OK.png''))))
       = Some (1, 3, 30)"
    by (simp add: demo_env_def)
  have below: "(85 / 100 :: rat) < 1" by simp
  from C3_exact_paste [OF load still tpl off paste, of "85 / 100"] below
  have "snd (match demo_env ([], demo_button ''assets/OK.png'') 0 (OffsetInt 30) (85 / 100))
       = Inr True"
    and "u_button_offset
        (snd (fst (match demo_env ([], demo_button ''assets/OK.png'') 0 (OffsetInt 30) (85 / 100))))
       = Some (area_offset (u_button (demo_button ''assets/OK.png'')) (- 3 + 3, - 30 + 30))"
    by (simp_all add: set_button_offset_def)
  with load still off paste below show ?thesis by blast
qed

text \<open>
  Against C3 as stated: on the same frame, where the matcher gives the score 1, the call
  with the threshold 1.0 returns false.
\<close>

theorem C3_threshold_one_counterexample:
  "\<not> is_gif (demo_button ''assets/OK.png'')
   \<and> matchTemplate demo_env 10
        (Image_crop demo_env 0
           (search_window (- 3, - 30, 3, 30) (area (demo_button ''assets/OK.png''))))
       = Some (1, 3, 30)
   \<and> (1 :: rat) \<le> 1
   \<and> snd (match demo_env ([], demo_button ''assets/OK.png'') 0 (OffsetInt 30) 1) = Inr False"
  by (simp add: demo_simps)



end
